theory Spec2Isabelle
  imports Main "HOL-Library.Multiset"
begin

section \<open>XenonPy \<open>utils/useful_cls.py\<close>: the Timer and the timing metaclass\<close>

text \<open>
  A shallow embedding of \<^verbatim>\<open>Timer\<close>, \<^verbatim>\<open>Timer._Timer\<close> and \<^verbatim>\<open>TimedMetaClass\<close>.

  Modelling decisions.
  \<^item> Clock readings are Python integers (\<open>int\<close>), as produced by the integer fake clocks of
    the specification's scenarios; clocks with fractional readings are not modelled. On
    integer readings every subtraction and \<^verbatim>\<open>sum(self.times)\<close> is exact integer arithmetic,
    and the one conversion to \<^verbatim>\<open>float\<close> is \<^verbatim>\<open>all_ + 0.0\<close> in \<^verbatim>\<open>_Timer.elapsed\<close>. That
    conversion is \<open>py_float\<close>: it rounds to the nearest double, and the double is represented
    by the integer it equals. Two things are left out: the \<^verbatim>\<open>OverflowError\<close> of the conversion
    for magnitudes from \<open>2 ^ 1024 - 2 ^ 970\<close> on, and the rounding of the float additions in
    the total of \<^verbatim>\<open>Timer.elapsed\<close>.
  \<^item> A clock is a stateful callable: the function \<open>ticks\<close> gives its successive readings
    and \<open>reads\<close> counts the calls made so far. \<^verbatim>\<open>time.perf_counter\<close> is the process-wide
    clock, passed through every operation that can read it; the \<^verbatim>\<open>time_func\<close> of a Timer
    is either that clock (the default argument) or an injected clock of its own.
  \<^item> The \<^verbatim>\<open>defaultdict\<close> registry is an association list in insertion order.
  \<^item> A raised exception is the outcome \<open>Raise\<close>; the state reached when it is raised is
    returned with it, since Python does not roll back mutations.
\<close>

subsection \<open>Exceptions and outcomes\<close>

datatype exn =
    RuntimeError string
  | TypeError string
  | AttributeError string
  | ArityError nat nat
  | DomainError string

text \<open>
  \<open>ArityError m n\<close> is the interpreter's \<^verbatim>\<open>TypeError\<close> for a call that passes \<open>n\<close>
  arguments besides \<^verbatim>\<open>self\<close> to a function that takes \<open>m\<close> (its message text depends on the
  interpreter version). \<open>DomainError\<close> stands for any exception raised by user code.
\<close>

datatype 'a outcome = Return 'a | Raise exn

subsection \<open>Clocks\<close>

record clock =
  ticks :: "nat \<Rightarrow> int"
  reads :: nat

definition read_clock :: "clock \<Rightarrow> int \<times> clock" where
  "read_clock c = (ticks c (reads c), c\<lparr>reads := Suc (reads c)\<rparr>)"

datatype time_func = Perf_counter | Injected clock

subsection \<open>\<^verbatim>\<open>Timer._Timer\<close>: one slot\<close>

record slot =
  slot_start :: "int option"
  slot_times :: "int list"

text \<open>\<^verbatim>\<open>_Timer.__init__\<close>\<close>

definition slot_init :: slot where
  "slot_init = \<lparr>slot_start = None, slot_times = []\<rparr>"

text \<open>Python truth value of \<^verbatim>\<open>self.start\<close>: \<^verbatim>\<open>None\<close> and \<^verbatim>\<open>0\<close> are false.\<close>

fun truthy :: "int option \<Rightarrow> bool" where
  "truthy None = False"
| "truthy (Some v) = (v \<noteq> 0)"

text \<open>\<^verbatim>\<open>n.bit_length()\<close> of a natural number.\<close>

fun bit_length :: "nat \<Rightarrow> nat" where
  "bit_length n = (if n = 0 then 0 else Suc (bit_length (n div 2)))"

declare bit_length.simps [simp del]

text \<open>
  The conversion of a Python integer to \<^verbatim>\<open>float\<close>, as \<^verbatim>\<open>i + 0.0\<close> performs it: integers up
  to \<open>2 ^ 53\<close> in magnitude are kept; a larger one keeps its 53 leading bits, rounded to
  nearest with ties to the even significand. The result is the integer the double equals.
\<close>

definition py_float :: "int \<Rightarrow> int" where
  "py_float i =
     (if \<bar>i\<bar> \<le> 2 ^ 53 then i
      else (let e = bit_length (nat \<bar>i\<bar>) - 53;
                q = \<bar>i\<bar> div 2 ^ e;
                r = \<bar>i\<bar> mod 2 ^ e;
                half = 2 ^ (e - 1);
                q' = (if r > half \<or> (r = half \<and> odd q) then q + 1 else q)
            in sgn i * (q' * 2 ^ e)))"

text \<open>
  \<^verbatim>\<open>_Timer.elapsed\<close>: the live delta is read from \<^verbatim>\<open>time.perf_counter()\<close>, and only
  when \<^verbatim>\<open>self.start\<close> is true; then \<^verbatim>\<open>all_ + dt\<close> adds two integers. Otherwise \<^verbatim>\<open>dt\<close> is
  \<^verbatim>\<open>0.0\<close> and \<^verbatim>\<open>all_ + dt\<close> converts the sum to \<^verbatim>\<open>float\<close>.
\<close>

definition slot_elapsed :: "slot \<Rightarrow> clock \<Rightarrow> int \<times> clock" where
  "slot_elapsed s perf =
     (let all_times = sum_list (slot_times s) in
      if truthy (slot_start s)
      then (let (now, perf') = read_clock perf in (all_times + (now - the (slot_start s)), perf'))
      else (py_float (all_times + 0), perf))"

subsection \<open>\<^verbatim>\<open>Timer\<close>\<close>

record Timer =
  func :: time_func
  timers :: "(string \<times> slot) list"

text \<open>\<^verbatim>\<open>Timer.__init__\<close>\<close>

definition Timer_init :: "time_func \<Rightarrow> Timer" where
  "Timer_init time_func = \<lparr>func = time_func, timers = []\<rparr>"

text \<open>\<^verbatim>\<open>self._func()\<close>\<close>

definition call_func :: "Timer \<Rightarrow> clock \<Rightarrow> int \<times> Timer \<times> clock" where
  "call_func t perf =
     (case func t of
        Perf_counter \<Rightarrow> (let (now, perf') = read_clock perf in (now, t, perf'))
      | Injected c \<Rightarrow> (let (now, c') = read_clock c in (now, t\<lparr>func := Injected c'\<rparr>, perf)))"

text \<open>
  \<^verbatim>\<open>self._timers[fn_name]\<close> on the \<^verbatim>\<open>defaultdict\<close>: a missing key is inserted, at the end,
  with a fresh slot.
\<close>

definition getitem :: "(string \<times> slot) list \<Rightarrow> string \<Rightarrow> slot \<times> (string \<times> slot) list" where
  "getitem d k =
     (case map_of d k of
        Some s \<Rightarrow> (s, d)
      | None \<Rightarrow> (slot_init, d @ [(k, slot_init)]))"

text \<open>Mutation of the slot stored under a key that is present.\<close>

definition update_slot :: "(string \<times> slot) list \<Rightarrow> string \<Rightarrow> (slot \<Rightarrow> slot) \<Rightarrow> (string \<times> slot) list" where
  "update_slot d k f = map (\<lambda>(k', s). if k' = k then (k', f s) else (k', s)) d"

text \<open>\<^verbatim>\<open>Timer.start\<close>\<close>

definition Timer_start :: "Timer \<Rightarrow> string \<Rightarrow> clock \<Rightarrow> unit outcome \<times> Timer \<times> clock" where
  "Timer_start t fn_name perf =
     (let (s, d) = getitem (timers t) fn_name;
          t1 = t\<lparr>timers := d\<rparr>
      in if slot_start s \<noteq> None
         then (Raise (RuntimeError (''Timer <'' @ fn_name @ ''> Already started'')), t1, perf)
         else (let (now, t2, perf') = call_func t1 perf
               in (Return (),
                   t2\<lparr>timers := update_slot (timers t2) fn_name (\<lambda>s. s\<lparr>slot_start := Some now\<rparr>)\<rparr>,
                   perf')))"

text \<open>\<^verbatim>\<open>Timer.stop\<close>\<close>

definition Timer_stop :: "Timer \<Rightarrow> string \<Rightarrow> clock \<Rightarrow> unit outcome \<times> Timer \<times> clock" where
  "Timer_stop t fn_name perf =
     (let (s, d) = getitem (timers t) fn_name;
          t1 = t\<lparr>timers := d\<rparr>
      in if slot_start s = None
         then (Raise (RuntimeError (''Timer <'' @ fn_name @ ''> not started'')), t1, perf)
         else (let (now, t2, perf') = call_func t1 perf;
                   elapsed = now - the (slot_start s)
               in (Return (),
                   t2\<lparr>timers := update_slot (timers t2) fn_name
                        (\<lambda>s. s\<lparr>slot_times := slot_times s @ [elapsed], slot_start := None\<rparr>)\<rparr>,
                   perf')))"

text \<open>
  \<^verbatim>\<open>sum(v.elapsed for v in self._timers.values())\<close>: the accumulator starts at \<open>0\<close> and every
  slot's \<^verbatim>\<open>elapsed\<close> is read in turn.
\<close>

fun sum_elapsed :: "slot list \<Rightarrow> int \<Rightarrow> clock \<Rightarrow> int \<times> clock" where
  "sum_elapsed [] acc perf = (acc, perf)"
| "sum_elapsed (v # vs) acc perf =
     (let (e, perf') = slot_elapsed v perf in sum_elapsed vs (acc + e) perf')"

text \<open>\<^verbatim>\<open>Timer.elapsed\<close>\<close>

definition Timer_elapsed :: "Timer \<Rightarrow> clock \<Rightarrow> int \<times> clock" where
  "Timer_elapsed t perf =
     (case map_of (timers t) ''main'' of
        Some main \<Rightarrow> slot_elapsed main perf
      | None \<Rightarrow> sum_elapsed (map snd (timers t)) 0 perf)"

subsection \<open>\<^verbatim>\<open>Timer.__repr__\<close>\<close>

text \<open>\<^verbatim>\<open>{k: v.elapsed for k, v in self._timers.items()}\<close>\<close>

fun elapsed_items :: "(string \<times> slot) list \<Rightarrow> clock \<Rightarrow> (string \<times> int) list \<times> clock" where
  "elapsed_items [] perf = ([], perf)"
| "elapsed_items ((k, v) # kvs) perf =
     (let (e, perf') = slot_elapsed v perf;
          (rest, perf'') = elapsed_items kvs perf'
      in ((k, e) # rest, perf''))"

text \<open>
  The built-in \<^verbatim>\<open>sorted(items, key=..., reverse=...)\<close>: a stable sort; with
  \<^verbatim>\<open>reverse=True\<close> the list is reversed, sorted and reversed again, which keeps equal keys
  in their original order.
\<close>

definition py_sorted :: "('a \<Rightarrow> int) \<Rightarrow> bool \<Rightarrow> 'a list \<Rightarrow> 'a list" where
  "py_sorted key reverse xs = (if reverse then rev (sort_key key (rev xs)) else sort_key key xs)"

text \<open>
  The built-in \<^verbatim>\<open>dict(pairs)\<close>: a later pair with a key already present replaces the value
  and keeps the position.
\<close>

fun dict_setitem :: "('k \<times> 'v) list \<Rightarrow> 'k \<Rightarrow> 'v \<Rightarrow> ('k \<times> 'v) list" where
  "dict_setitem [] k v = [(k, v)]"
| "dict_setitem ((k', v') # d) k v =
     (if k' = k then (k, v) # d else (k', v') # dict_setitem d k v)"

definition py_dict :: "('k \<times> 'v) list \<Rightarrow> ('k \<times> 'v) list" where
  "py_dict pairs = foldl (\<lambda>d (k, v). dict_setitem d k v) [] pairs"

text \<open>\<^verbatim>\<open>sep.join(lines)\<close>\<close>

fun join :: "string \<Rightarrow> string list \<Rightarrow> string" where
  "join sep [] = []"
| "join sep [x] = x"
| "join sep (x # y # ys) = x @ sep @ join sep (y # ys)"

text \<open>
  The entries of the report in the order they are printed, and the clock after the
  readings of the first statement of \<^verbatim>\<open>__repr__\<close>.
\<close>

definition report_entries :: "Timer \<Rightarrow> clock \<Rightarrow> (string \<times> int) list \<times> clock" where
  "report_entries t perf =
     (let (tmp, perf1) = elapsed_items (timers t) perf;
          tmp = py_dict (py_sorted snd False tmp)
      in (py_sorted snd True tmp, perf1))"

text \<open>
  \<^verbatim>\<open>Timer.__repr__\<close>. The rendering \<^verbatim>\<open>str(timedelta(seconds=v))\<close> belongs to the standard
  library and is the parameter \<open>td\<close>.
\<close>

definition Timer_repr :: "(int \<Rightarrow> string) \<Rightarrow> Timer \<Rightarrow> clock \<Rightarrow> string \<times> clock" where
  "Timer_repr td t perf =
     (let (entries, perf1) = report_entries t perf;
          (total, perf2) = Timer_elapsed t perf1
      in (''Total elapsed: '' @ td total @ '' <seconds>'' @ [CHR 0x0A] @
          join [CHR 0x0A] (map (\<lambda>(k, v). ''  |- '' @ k @ '': '' @ td v) entries),
          perf2))"

subsection \<open>\<^verbatim>\<open>Timer.__enter__\<close>, \<^verbatim>\<open>Timer.__exit__\<close> and the \<^verbatim>\<open>with\<close> statement\<close>

definition Timer_enter :: "Timer \<Rightarrow> clock \<Rightarrow> unit outcome \<times> Timer \<times> clock" where
  "Timer_enter t perf = Timer_start t ''main'' perf"

definition Timer_exit :: "Timer \<Rightarrow> clock \<Rightarrow> unit outcome \<times> Timer \<times> clock" where
  "Timer_exit t perf = Timer_stop t ''main'' perf"

text \<open>
  \<^verbatim>\<open>with timer: body\<close>. When \<^verbatim>\<open>__enter__\<close> raises, the block is not entered and
  \<^verbatim>\<open>__exit__\<close> is not called. Otherwise \<^verbatim>\<open>__exit__\<close> runs however the body ends; it returns
  \<^verbatim>\<open>None\<close>, so an exception of the body goes on propagating, unless \<^verbatim>\<open>__exit__\<close> itself
  raises, which replaces the outcome.
\<close>

definition with_Timer ::
  "Timer \<Rightarrow> (Timer \<Rightarrow> clock \<Rightarrow> 'a outcome \<times> Timer \<times> clock) \<Rightarrow> clock \<Rightarrow> 'a outcome \<times> Timer \<times> clock" where
  "with_Timer t body perf =
     (case Timer_enter t perf of
        (Raise e, t1, perf1) \<Rightarrow> (Raise e, t1, perf1)
      | (Return _, t1, perf1) \<Rightarrow>
          (let (r, t2, perf2) = body t1 perf1
           in case Timer_exit t2 perf2 of
                (Raise e, t3, perf3) \<Rightarrow> (Raise e, t3, perf3)
              | (Return _, t3, perf3) \<Rightarrow> (r, t3, perf3)))"

subsection \<open>Instances, attribute values and calls\<close>

text \<open>
  Values passed to and returned by operations. Keyword arguments are not modelled: a call
  passes a list of positional arguments.
\<close>

datatype val = IntVal int | StrVal string | NoneVal

text \<open>
  What an operation can see and change: the process-wide \<^verbatim>\<open>time.perf_counter\<close>, the
  attribute \<^verbatim>\<open>self._timer\<close> (\<open>None\<close> while the attribute is not set) and the other attributes
  of the instance.
\<close>

record 'u state =
  perf_counter :: clock
  self_timer :: "Timer option"
  self_fields :: 'u

type_synonym 'u code = "val list \<Rightarrow> 'u state \<Rightarrow> val outcome \<times> 'u state"

text \<open>
  A value of the class namespace: a function (\<^verbatim>\<open>types.FunctionType\<close>) or a bound method
  (\<^verbatim>\<open>types.MethodType\<close>) with its \<^verbatim>\<open>__name__\<close> and its behaviour when called as
  \<^verbatim>\<open>fn(self, *args)\<close>, a plain value, or the property that \<^verbatim>\<open>__new__\<close> installs as
  \<^verbatim>\<open>timer\<close>.
\<close>

datatype 'u attr =
    Function string "'u code"
  | Method string "'u code"
  | Data val
  | Property_timer

text \<open>\<^verbatim>\<open>isinstance(value, (types.FunctionType, types.MethodType))\<close>\<close>

fun is_function :: "'u attr \<Rightarrow> bool" where
  "is_function (Function n c) = True"
| "is_function (Method n c) = True"
| "is_function (Data v) = False"
| "is_function Property_timer = False"

text \<open>
  \<^verbatim>\<open>fn.__name__\<close> as \<^verbatim>\<open>functools.wraps\<close> copies it: a value without \<^verbatim>\<open>__name__\<close> leaves the
  wrapper's own name \<open>d\<close> in place.
\<close>

fun name_or :: "string \<Rightarrow> 'u attr \<Rightarrow> string" where
  "name_or d (Function n c) = n"
| "name_or d (Method n c) = n"
| "name_or d (Data v) = d"
| "name_or d Property_timer = d"

text \<open>\<^verbatim>\<open>fn.__name__\<close> of a function or method.\<close>

definition name_of :: "'u attr \<Rightarrow> string" where
  "name_of fn = name_or [] fn"

text \<open>\<^verbatim>\<open>str(type(value))\<close>\<close>

fun type_repr :: "'u attr \<Rightarrow> string" where
  "type_repr (Function n c) = ''<class 'function'>''"
| "type_repr (Method n c) = ''<class 'method'>''"
| "type_repr (Data (IntVal i)) = ''<class 'int'>''"
| "type_repr (Data (StrVal s)) = ''<class 'str'>''"
| "type_repr (Data NoneVal) = ''<class 'NoneType'>''"
| "type_repr Property_timer = ''<class 'property'>''"

text \<open>
  \<^verbatim>\<open>fn(self, *args)\<close>. Calling a value that is not callable raises the interpreter's
  \<^verbatim>\<open>TypeError\<close>.
\<close>

fun call :: "'u attr \<Rightarrow> 'u code" where
  "call (Function n c) args st = c args st"
| "call (Method n c) args st = c args st"
| "call (Data v) args st = (Raise (TypeError ''object is not callable''), st)"
| "call Property_timer args st = (Raise (TypeError ''object is not callable''), st)"

subsection \<open>\<^verbatim>\<open>TimedMetaClass._timed\<close>\<close>

text \<open>
  The inner function \<^verbatim>\<open>fn_\<close>. \<^verbatim>\<open>self._timer\<close> raises \<^verbatim>\<open>AttributeError\<close> when the attribute is
  not set. An exception of \<^verbatim>\<open>start\<close> propagates before the \<^verbatim>\<open>try\<close> is entered. Inside the
  \<^verbatim>\<open>try\<close>, \<^verbatim>\<open>finally\<close> runs \<^verbatim>\<open>stop\<close> however \<^verbatim>\<open>fn\<close> ends, and an exception raised there
  replaces the outcome of \<^verbatim>\<open>fn\<close>.
\<close>

definition fn_wrapper :: "'u attr \<Rightarrow> 'u code" where
  "fn_wrapper fn args st =
     (case self_timer st of
        None \<Rightarrow> (Raise (AttributeError ''_timer''), st)
      | Some t \<Rightarrow>
          (case Timer_start t (name_of fn) (perf_counter st) of
             (Raise e, t1, p1) \<Rightarrow> (Raise e, st\<lparr>self_timer := Some t1, perf_counter := p1\<rparr>)
           | (Return _, t1, p1) \<Rightarrow>
               (let (rt, st2) = call fn args (st\<lparr>self_timer := Some t1, perf_counter := p1\<rparr>)
                in case self_timer st2 of
                     None \<Rightarrow> (Raise (AttributeError ''_timer''), st2)
                   | Some t2 \<Rightarrow>
                       (case Timer_stop t2 (name_of fn) (perf_counter st2) of
                          (Raise e, t3, p3) \<Rightarrow>
                            (Raise e, st2\<lparr>self_timer := Some t3, perf_counter := p3\<rparr>)
                        | (Return _, t3, p3) \<Rightarrow>
                            (rt, st2\<lparr>self_timer := Some t3, perf_counter := p3\<rparr>)))))"

definition timed :: "'u attr \<Rightarrow> exn + 'u attr" where
  "timed fn =
     (if is_function fn then Inr (Function (name_of fn) (fn_wrapper fn))
      else Inl (TypeError (''Need <FunctionType> or <MethodType> but got '' @ type_repr fn)))"

subsection \<open>\<^verbatim>\<open>TimedMetaClass.__new__\<close>\<close>

text \<open>
  \<^verbatim>\<open>injected_init\<close> of the branch \<^verbatim>\<open>'__init__' in attrs\<close>: it takes any arguments, sets
  \<^verbatim>\<open>_timer\<close> to \<^verbatim>\<open>Timer()\<close> and calls the real \<^verbatim>\<open>__init__\<close> with them; its own result is
  \<^verbatim>\<open>None\<close>.
\<close>

definition injected_init_real :: "'u attr \<Rightarrow> 'u code" where
  "injected_init_real real_init args st =
     (case call real_init args (st\<lparr>self_timer := Some (Timer_init Perf_counter)\<rparr>) of
        (Raise e, st') \<Rightarrow> (Raise e, st')
      | (Return _, st') \<Rightarrow> (Return NoneVal, st'))"

text \<open>
  \<^verbatim>\<open>injected_init\<close> of the other branch: \<^verbatim>\<open>def injected_init(self)\<close> takes no argument
  besides \<^verbatim>\<open>self\<close> and only sets \<^verbatim>\<open>_timer\<close>.
\<close>

definition injected_init_bare :: "'u code" where
  "injected_init_bare args st =
     (if args \<noteq> [] then (Raise (ArityError 0 (length args)), st)
      else (Return NoneVal, st\<lparr>self_timer := Some (Timer_init Perf_counter)\<rparr>))"

text \<open>\<^verbatim>\<open>name_.startswith("__")\<close>\<close>

definition startswith :: "string \<Rightarrow> string \<Rightarrow> bool" where
  "startswith s pre = (take (length pre) s = pre)"

text \<open>
  The loop over \<^verbatim>\<open>attrs.items()\<close>, which assigns to the key it is visiting. An exception of
  \<^verbatim>\<open>_timed\<close> would end it.
\<close>

fun wrap_attrs :: "(string \<times> 'u attr) list \<Rightarrow> exn + (string \<times> 'u attr) list" where
  "wrap_attrs [] = Inr []"
| "wrap_attrs ((name', value') # rest) =
     (if \<not> startswith name' ''__'' \<and> is_function value'
      then (case timed value' of
              Inl e \<Rightarrow> Inl e
            | Inr w \<Rightarrow> (case wrap_attrs rest of Inl e \<Rightarrow> Inl e | Inr r \<Rightarrow> Inr ((name', w) # r)))
      else (case wrap_attrs rest of Inl e \<Rightarrow> Inl e | Inr r \<Rightarrow> Inr ((name', value') # r)))"

text \<open>A class: its name, its bases and its namespace.\<close>

datatype 'u cls = Class (cls_name: string) (cls_bases: "'u cls list") (cls_attrs: "(string \<times> 'u attr) list")

definition TimedMetaClass_new :: "string \<Rightarrow> 'u cls list \<Rightarrow> (string \<times> 'u attr) list \<Rightarrow> exn + 'u cls" where
  "TimedMetaClass_new name bases attrs =
     (let injected_init =
            (case map_of attrs ''__init__'' of
               Some real_init \<Rightarrow>
                 Function (name_or ''injected_init'' real_init) (injected_init_real real_init)
             | None \<Rightarrow> Function ''injected_init'' injected_init_bare);
          attrs1 = dict_setitem attrs ''__init__'' injected_init
      in case wrap_attrs attrs1 of
           Inl e \<Rightarrow> Inl e
         | Inr attrs2 \<Rightarrow> Inr (Class name bases (dict_setitem attrs2 ''timer'' Property_timer)))"

subsection \<open>Attribute lookup and instantiation\<close>

text \<open>
  Attribute lookup on a class: its own namespace, then its bases from left to right, depth
  first (the method resolution order of a hierarchy without diamonds).
\<close>

fun lookup_attr :: "'u cls \<Rightarrow> string \<Rightarrow> 'u attr option"
  and lookup_bases :: "'u cls list \<Rightarrow> string \<Rightarrow> 'u attr option" where
  "lookup_attr (Class n bs as) k =
     (case map_of as k of Some a \<Rightarrow> Some a | None \<Rightarrow> lookup_bases bs k)"
| "lookup_bases [] k = None"
| "lookup_bases (b # bs) k =
     (case lookup_attr b k of Some a \<Rightarrow> Some a | None \<Rightarrow> lookup_bases bs k)"

text \<open>
  \<^verbatim>\<open>cls(*args)\<close> on a new instance whose other attributes are \<open>u0\<close>: the \<^verbatim>\<open>__init__\<close> found by
  lookup is called with the arguments; without any, \<^verbatim>\<open>object.__init__\<close> accepts no argument.
\<close>

definition instantiate :: "'u cls \<Rightarrow> val list \<Rightarrow> 'u \<Rightarrow> clock \<Rightarrow> exn + 'u state" where
  "instantiate c args u0 perf =
     (let st0 = \<lparr>perf_counter = perf, self_timer = None, self_fields = u0\<rparr>
      in case lookup_attr c ''__init__'' of
           None \<Rightarrow> if args = [] then Inr st0 else Inl (ArityError 0 (length args))
         | Some init \<Rightarrow>
             (case call init args st0 of
                (Raise e, st) \<Rightarrow> Inl e
              | (Return NoneVal, st) \<Rightarrow> Inr st
              | (Return _, st) \<Rightarrow> Inl (TypeError ''__init__() should return None'')))"

subsection \<open>Auxiliary definitions for the statements\<close>

text \<open>The slot a lookup of \<open>k\<close> yields: the stored one, or a fresh one.\<close>

definition slot_of :: "Timer \<Rightarrow> string \<Rightarrow> slot" where
  "slot_of t k = (case map_of (timers t) k of Some s \<Rightarrow> s | None \<Rightarrow> slot_init)"



text \<open>What the loop of \<^verbatim>\<open>__new__\<close> leaves under the key \<open>k\<close> that held \<open>v\<close>.\<close>

definition wrapped_value :: "string \<Rightarrow> 'u attr \<Rightarrow> 'u attr" where
  "wrapped_value k v =
     (if \<not> startswith k ''__'' \<and> is_function v then Function (name_of v) (fn_wrapper v) else v)"

text \<open>
  Example operations: one that returns \<^verbatim>\<open>None\<close>, one that raises, and an initializer
  \<^verbatim>\<open>def __init__(self, x): self.x = x\<close> on instances whose only other attribute is \<^verbatim>\<open>x\<close>.
\<close>

definition noop :: "unit code" where
  "noop args st = (Return NoneVal, st)"

definition failing :: "unit code" where
  "failing args st = (Raise (DomainError ''boom''), st)"

definition base_init :: "int code" where
  "base_init args st =
     (case args of
        [IntVal x] \<Rightarrow> (Return NoneVal, st\<lparr>self_fields := x\<rparr>)
      | _ \<Rightarrow> (Raise (ArityError 1 (length args)), st))"

section \<open>Properties\<close>

subsection \<open>Registry lookups and the two clock kinds\<close>

lemma map_of_update_slot:
  "map_of (update_slot d k f) k' = (if k' = k then map_option f (map_of d k) else map_of d k')"
  by (induction d) (auto simp: update_slot_def)

lemma keys_update_slot: "map fst (update_slot d k f) = map fst d"
  by (induction d) (auto simp: update_slot_def)

lemma timers_call_func: "call_func t p = (now, t', p') \<Longrightarrow> timers t' = timers t"
  by (auto simp: call_func_def read_clock_def split: time_func.splits)


lemma call_func_Perf:
  "func t = Perf_counter \<Longrightarrow>
   call_func t p = (ticks p (reads p), t, p\<lparr>reads := Suc (reads p)\<rparr>)"
  by (simp add: call_func_def read_clock_def)

lemma map_of_getitem: "map_of (snd (getitem d k)) k' = (if k' = k then Some (case map_of d k of Some s \<Rightarrow> s | None \<Rightarrow> slot_init) else map_of d k')"
  by (auto simp: getitem_def map_add_def split: option.splits)

lemma fst_getitem: "fst (getitem d k) = (case map_of d k of Some s \<Rightarrow> s | None \<Rightarrow> slot_init)"
  by (auto simp: getitem_def split: option.splits)

lemma Timer_start_ok:
  assumes "slot_start (slot_of t k) = None" and "call_func t p = (now, t2, p')"
  shows "\<exists>t'. Timer_start t k p = (Return (), t', p') \<and> func t' = func t2 \<and>
           map_of (timers t') = (map_of (timers t))(k \<mapsto> (slot_of t k)\<lparr>slot_start := Some now\<rparr>)"
  using assms
proof -
  obtain s d where g: "getitem (timers t) k = (s, d)" by (cases "getitem (timers t) k")
  have s: "s = slot_of t k" using fst_getitem[of "timers t" k] g by (simp add: slot_of_def)
  have d: "map_of d = (map_of (timers t))(k \<mapsto> slot_of t k)"
    using map_of_getitem[of "timers t" k] g by (auto simp: slot_of_def fun_eq_iff)
  obtain t3 where c: "call_func (t\<lparr>timers := d\<rparr>) p = (now, t3, p')" and f3: "func t3 = func t2" and t3: "timers t3 = d"
    using assms(2) by (auto simp: call_func_def read_clock_def split: time_func.splits)
  show ?thesis
    using assms(1) g s d c f3 t3
    by (auto simp: Timer_start_def fun_eq_iff map_of_update_slot)
qed

lemma keys_getitem:
  "map fst (snd (getitem d k)) = (if k \<in> set (map fst d) then map fst d else map fst d @ [k])"
  by (auto simp: getitem_def map_of_eq_None_iff split: option.splits dest: map_of_SomeD)
    (metis domI domIff map_of_eq_None_iff image_eqI fst_conv)+

lemma Timer_start_keys:
  assumes "Timer_start t k p = (r, t', p')"
  shows "map fst (timers t') =
         (if k \<in> set (map fst (timers t)) then map fst (timers t) else map fst (timers t) @ [k])"
proof -
  obtain s d where g: "getitem (timers t) k = (s, d)" by (cases "getitem (timers t) k")
  obtain now t2 p2 where c: "call_func (t\<lparr>timers := d\<rparr>) p = (now, t2, p2)"
    by (cases "call_func (t\<lparr>timers := d\<rparr>) p")
  have "timers t2 = d" using timers_call_func[OF c] by simp
  then have "map fst (timers t') = map fst d"
    using assms g c by (auto simp: Timer_start_def Let_def keys_update_slot split: if_splits)
  then show ?thesis using keys_getitem[of "timers t" k] g by simp
qed

lemma Timer_stop_keys:
  assumes "Timer_stop t k p = (r, t', p')"
  shows "map fst (timers t') =
         (if k \<in> set (map fst (timers t)) then map fst (timers t) else map fst (timers t) @ [k])"
proof -
  obtain s d where g: "getitem (timers t) k = (s, d)" by (cases "getitem (timers t) k")
  obtain now t2 p2 where c: "call_func (t\<lparr>timers := d\<rparr>) p = (now, t2, p2)"
    by (cases "call_func (t\<lparr>timers := d\<rparr>) p")
  have "timers t2 = d" using timers_call_func[OF c] by simp
  then have "map fst (timers t') = map fst d"
    using assms g c by (auto simp: Timer_stop_def Let_def keys_update_slot split: if_splits)
  then show ?thesis using keys_getitem[of "timers t" k] g by simp
qed

text \<open>
  The registry keeps distinct names: a fresh Timer has none, and \<^verbatim>\<open>start\<close> and \<^verbatim>\<open>stop\<close> add at
  most the name they are called with, when it is new.
\<close>

lemma distinct_keys_init: "distinct (map fst (timers (Timer_init f)))"
  by (simp add: Timer_init_def)

lemma distinct_keys_start:
  "distinct (map fst (timers t)) \<Longrightarrow> Timer_start t k p = (r, t', p') \<Longrightarrow>
   distinct (map fst (timers t'))"
  using Timer_start_keys[of t k p r t' p'] by (auto split: if_splits)

lemma distinct_keys_stop:
  "distinct (map fst (timers t)) \<Longrightarrow> Timer_stop t k p = (r, t', p') \<Longrightarrow>
   distinct (map fst (timers t'))"
  using Timer_stop_keys[of t k p r t' p'] by (auto split: if_splits)

lemma Timer_start_fail:
  assumes "slot_start (slot_of t k) \<noteq> None"
  shows "Timer_start t k p =
           (Raise (RuntimeError (''Timer <'' @ k @ ''> Already started'')), t, p)"
proof -
  from assms obtain s where "map_of (timers t) k = Some s"
    by (auto simp: slot_of_def slot_init_def split: option.splits)
  then show ?thesis using assms
    by (simp add: Timer_start_def getitem_def slot_of_def)
qed

lemma Timer_stop_ok:
  assumes "slot_start (slot_of t k) = Some b" and "call_func t p = (now, t2, p')"
  shows "\<exists>t'. Timer_stop t k p = (Return (), t', p') \<and> func t' = func t2 \<and>
           map fst (timers t') = map fst (timers t) \<and>
           map_of (timers t') = (map_of (timers t))(k \<mapsto>
              (slot_of t k)\<lparr>slot_times := slot_times (slot_of t k) @ [now - b], slot_start := None\<rparr>)"
proof -
  from assms(1) obtain s where m: "map_of (timers t) k = Some s" and s: "s = slot_of t k"
    by (auto simp: slot_of_def slot_init_def split: option.splits)
  then have g: "getitem (timers t) k = (s, timers t)" by (simp add: getitem_def)
  obtain t3 where c: "call_func (t\<lparr>timers := timers t\<rparr>) p = (now, t3, p')" and f3: "func t3 = func t2"
     and t3: "timers t3 = timers t"
    using assms(2) by (auto simp: call_func_def read_clock_def split: time_func.splits)
  show ?thesis
    using assms(1) g s m c f3 t3
    by (auto simp: Timer_stop_def fun_eq_iff map_of_update_slot keys_update_slot)
qed

lemma Timer_stop_fail:
  assumes "slot_start (slot_of t k) = None"
  shows "Timer_stop t k p =
           (Raise (RuntimeError (''Timer <'' @ k @ ''> not started'')),
            t\<lparr>timers := snd (getitem (timers t) k)\<rparr>, p)"
  using assms fst_getitem[of "timers t" k]
  by (auto simp: Timer_stop_def slot_of_def split: prod.splits)





subsection \<open>The conversion to float\<close>


lemma py_float_exact: "\<bar>i\<bar> \<le> 2 ^ 53 \<Longrightarrow> py_float i = i"
  by (simp add: py_float_def)



lemma slot_elapsed_idle:
  "slot_start s = None \<Longrightarrow> slot_elapsed s p = (py_float (sum_list (slot_times s)), p)"
  by (simp add: slot_elapsed_def)

subsection \<open>Paired start and stop calls\<close>




subsection \<open>Reading a slot\<close>

lemma slot_elapsed_running:
  "slot_start s = Some b \<Longrightarrow> b \<noteq> 0 \<Longrightarrow>
   slot_elapsed s perf =
     (sum_list (slot_times s) + (ticks perf (reads perf) - b), perf\<lparr>reads := Suc (reads perf)\<rparr>)"
  by (simp add: slot_elapsed_def read_clock_def)

lemma slot_elapsed_zero:
  "slot_start s = Some 0 \<Longrightarrow> slot_elapsed s perf = (py_float (sum_list (slot_times s)), perf)"
  by (simp add: slot_elapsed_def)

lemma slot_of_Some: "map_of (timers t) k = Some s \<Longrightarrow> slot_of t k = s"
  by (simp add: slot_of_def)

subsection \<open>A slot started at clock reading 0\<close>

text \<open>
  Claim C10. A slot that is Running with the recorded start reading exactly \<open>0\<close> is read by
  \<^verbatim>\<open>elapsed\<close> as if it were Idle: the result is what the same slot gives with no start
  recorded, the sum of the completed durations as a float (the exact sum up to \<open>2 ^ 53\<close>),
  with no live delta and no clock reading. A following \<^verbatim>\<open>stop\<close> of that slot still succeeds
  and appends the duration \<open>now - 0\<close>, where \<open>now\<close> is the reading of the Timer's clock.
\<close>

theorem running_since_zero:
  assumes "map_of (timers t) name = Some s" and "slot_start s = Some 0"
  shows "slot_elapsed s perf = (py_float (sum_list (slot_times s)), perf) \<and>
         slot_elapsed s perf = slot_elapsed (s\<lparr>slot_start := None\<rparr>) perf \<and>
         (\<bar>sum_list (slot_times s)\<bar> \<le> 2 ^ 53 \<longrightarrow>
            slot_elapsed s perf = (sum_list (slot_times s), perf)) \<and>
         (\<exists>t'. Timer_stop t name perf = (Return (), t', snd (snd (call_func t perf))) \<and>
               map_of (timers t') name =
                 Some (s\<lparr>slot_times := slot_times s @ [fst (call_func t perf)], slot_start := None\<rparr>))"
proof -
  obtain now t2 p' where c: "call_func t perf = (now, t2, p')" by (cases "call_func t perf")
  have run: "slot_start (slot_of t name) = Some 0" using assms by (simp add: slot_of_Some)
  from Timer_stop_ok[OF run c] slot_of_Some[OF assms(1)] c
  have "\<exists>t'. Timer_stop t name perf = (Return (), t', snd (snd (call_func t perf))) \<and>
               map_of (timers t') name =
                 Some (s\<lparr>slot_times := slot_times s @ [fst (call_func t perf)], slot_start := None\<rparr>)"
    by auto
  moreover have "slot_elapsed s perf = slot_elapsed (s\<lparr>slot_start := None\<rparr>) perf"
    using slot_elapsed_zero[OF assms(2), of perf] by (simp add: slot_elapsed_idle)
  moreover have "\<bar>sum_list (slot_times s)\<bar> \<le> 2 ^ 53 \<longrightarrow>
            slot_elapsed s perf = (sum_list (slot_times s), perf)"
    using slot_elapsed_zero[OF assms(2), of perf] by (simp add: py_float_exact)
  ultimately show ?thesis using slot_elapsed_zero[OF assms(2)] by simp
qed

text \<open>A slot started at 0 with one completed run of 3, stopped at reading 5.\<close>

theorem running_since_zero_witness:
  "map_of (timers \<lparr>func = Injected \<lparr>ticks = (\<lambda>n. 5 * int n), reads = 1\<rparr>,
                   timers = [(''a'', \<lparr>slot_start = Some 0, slot_times = [3]\<rparr>)]\<rparr>) ''a''
     = Some \<lparr>slot_start = Some 0, slot_times = [3]\<rparr> \<and>
   slot_start \<lparr>slot_start = Some 0, slot_times = [3]\<rparr> = Some 0 \<and>
   slot_elapsed \<lparr>slot_start = Some 0, slot_times = [3]\<rparr> \<lparr>ticks = (\<lambda>n. 100), reads = 0\<rparr>
     = (3, \<lparr>ticks = (\<lambda>n. 100), reads = 0\<rparr>) \<and>
   (\<exists>t'. Timer_stop \<lparr>func = Injected \<lparr>ticks = (\<lambda>n. 5 * int n), reads = 1\<rparr>,
                      timers = [(''a'', \<lparr>slot_start = Some 0, slot_times = [3]\<rparr>)]\<rparr> ''a''
              \<lparr>ticks = (\<lambda>n. 100), reads = 0\<rparr> = (Return (), t', \<lparr>ticks = (\<lambda>n. 100), reads = 0\<rparr>) \<and>
         map_of (timers t') ''a'' = Some \<lparr>slot_start = None, slot_times = [3, 5]\<rparr>)"
  using running_since_zero [of "\<lparr>func = Injected \<lparr>ticks = (\<lambda>n. 5 * int n), reads = 1\<rparr>,
                   timers = [(''a'', \<lparr>slot_start = Some 0, slot_times = [3]\<rparr>)]\<rparr>" "''a''"
          "\<lparr>slot_start = Some 0, slot_times = [3]\<rparr>" "\<lparr>ticks = (\<lambda>n. 100), reads = 0\<rparr>"]
  by (simp add: call_func_def read_clock_def py_float_exact)

subsection \<open>The clock behind the live delta\<close>

text \<open>
  Claim C3, evaluated. A Timer is built with an injected clock whose readings are
  10, 20, 30, ... while \<^verbatim>\<open>time.perf_counter\<close> reads 1000. \<^verbatim>\<open>start("a")\<close> records 10 from the
  injected clock. Reading \<^verbatim>\<open>elapsed\<close> of the Running slot then gives \<open>1000 - 10 = 990\<close>, taken
  from \<^verbatim>\<open>time.perf_counter\<close>; the next reading of the injected clock would have given
  \<open>20 - 10 = 10\<close>.
\<close>

theorem elapsed_ignores_injected_clock:
  "Timer_start (Timer_init (Injected \<lparr>ticks = (\<lambda>n. 10 + 10 * int n), reads = 0\<rparr>)) ''a''
       \<lparr>ticks = (\<lambda>n. 1000), reads = 0\<rparr>
     = (Return (),
        \<lparr>func = Injected \<lparr>ticks = (\<lambda>n. 10 + 10 * int n), reads = 1\<rparr>,
         timers = [(''a'', \<lparr>slot_start = Some 10, slot_times = []\<rparr>)]\<rparr>,
        \<lparr>ticks = (\<lambda>n. 1000), reads = 0\<rparr>) \<and>
   slot_elapsed \<lparr>slot_start = Some 10, slot_times = []\<rparr> \<lparr>ticks = (\<lambda>n. 1000), reads = 0\<rparr>
     = (990, \<lparr>ticks = (\<lambda>n. 1000), reads = 1\<rparr>) \<and>
   fst (read_clock \<lparr>ticks = (\<lambda>n. 10 + 10 * int n), reads = 1\<rparr>) - 10 = 10"
  by (simp add: Timer_start_def Timer_init_def getitem_def slot_init_def call_func_def
      read_clock_def update_slot_def slot_elapsed_def)

subsection \<open>The \<^verbatim>\<open>elapsed\<close> property of a Timer\<close>



lemma keys_elapsed_items: "map fst (fst (elapsed_items kvs p)) = map fst kvs"
proof (induction kvs arbitrary: p)
  case Nil
  then show ?case by simp
next
  case (Cons kv kvs)
  obtain k v where kv: "kv = (k, v)" by (cases kv)
  obtain e p' where e: "slot_elapsed v p = (e, p')" by (cases "slot_elapsed v p")
  show ?case using kv e Cons.IH[of p'] by (auto split: prod.splits)
qed




subsection \<open>The textual report\<close>

lemma dict_setitem_fresh: "k \<notin> set (map fst d) \<Longrightarrow> dict_setitem d k v = d @ [(k, v)]"
  by (induction d) auto

lemma foldl_dict_setitem_distinct:
  "distinct (map fst (d @ ps)) \<Longrightarrow> foldl (\<lambda>d (k, v). dict_setitem d k v) d ps = d @ ps"
proof (induction ps arbitrary: d)
  case Nil
  then show ?case by simp
next
  case (Cons kv ps)
  obtain k v where kv: "kv = (k, v)" by (cases kv)
  have fresh: "k \<notin> set (map fst d)" using Cons.prems kv by auto
  have "distinct (map fst ((d @ [(k, v)]) @ ps))" using Cons.prems kv by simp
  from Cons.IH[OF this] show ?case using kv fresh by (simp add: dict_setitem_fresh)
qed

lemma py_dict_distinct: "distinct (map fst ps) \<Longrightarrow> py_dict ps = ps"
  using foldl_dict_setitem_distinct[of "[]" ps] by (simp add: py_dict_def)

lemma mset_py_sorted: "mset (py_sorted key r xs) = mset xs"
  by (simp add: py_sorted_def)

lemma py_sorted_stable:
  "filter (\<lambda>y. key y = v) (py_sorted key r xs) = filter (\<lambda>y. key y = v) xs"
  by (simp add: py_sorted_def sort_key_stable flip: rev_filter)

lemma py_sorted_descending: "sorted (rev (map key (py_sorted key True xs)))"
  by (simp add: py_sorted_def rev_map)

lemma distinct_keys_mset:
  "mset ys = mset xs \<Longrightarrow> distinct (map fst xs) \<Longrightarrow> distinct (map fst ys)"
  by (metis mset_map mset_eq_imp_distinct_iff)

lemma report_entries_eq:
  assumes "distinct (map fst (timers t))"
  shows "report_entries t perf =
           (py_sorted snd True (py_sorted snd False (fst (elapsed_items (timers t) perf))),
            snd (elapsed_items (timers t) perf))"
proof -
  let ?items = "fst (elapsed_items (timers t) perf)"
  have "distinct (map fst ?items)" using assms by (simp add: keys_elapsed_items)
  then have "distinct (map fst (py_sorted snd False ?items))"
    using distinct_keys_mset[OF mset_py_sorted] by blast
  then have "py_dict (py_sorted snd False ?items) = py_sorted snd False ?items"
    by (rule py_dict_distinct)
  then show ?thesis by (simp add: report_entries_def split_beta)
qed

text \<open>
  Claim C5. For a registry (a dictionary, so with distinct names) the report is the
  total-elapsed line followed by one line per slot: the printed entries are a permutation
  of the slots' \<open>(name, elapsed)\<close> pairs, their elapsed values are in descending order, and
  entries with equal elapsed values keep the insertion order of the registry.
\<close>

theorem report_order:
  assumes "distinct (map fst (timers t))"
  shows "mset (fst (report_entries t perf)) = mset (fst (elapsed_items (timers t) perf)) \<and>
         map fst (fst (elapsed_items (timers t) perf)) = map fst (timers t) \<and>
         sorted (rev (map snd (fst (report_entries t perf)))) \<and>
         (\<forall>v. filter (\<lambda>e. snd e = v) (fst (report_entries t perf)) =
              filter (\<lambda>e. snd e = v) (fst (elapsed_items (timers t) perf))) \<and>
         fst (Timer_repr td t perf) =
           ''Total elapsed: '' @ td (fst (Timer_elapsed t (snd (report_entries t perf)))) @
           '' <seconds>'' @ [CHR 0x0A] @
           join [CHR 0x0A] (map (\<lambda>(k, v). ''  |- '' @ k @ '': '' @ td v) (fst (report_entries t perf)))"
proof -
  note r = report_entries_eq[OF assms, of perf]
  have 1: "mset (fst (report_entries t perf)) = mset (fst (elapsed_items (timers t) perf))"
    by (simp add: r mset_py_sorted)
  have 2: "map fst (fst (elapsed_items (timers t) perf)) = map fst (timers t)"
    by (rule keys_elapsed_items)
  have 3: "sorted (rev (map snd (fst (report_entries t perf))))"
    by (simp add: r py_sorted_descending)
  have 4: "\<forall>v. filter (\<lambda>e. snd e = v) (fst (report_entries t perf)) =
              filter (\<lambda>e. snd e = v) (fst (elapsed_items (timers t) perf))"
    by (simp add: r py_sorted_stable)
  have 5: "fst (Timer_repr td t perf) =
           ''Total elapsed: '' @ td (fst (Timer_elapsed t (snd (report_entries t perf)))) @
           '' <seconds>'' @ [CHR 0x0A] @
           join [CHR 0x0A] (map (\<lambda>(k, v). ''  |- '' @ k @ '': '' @ td v) (fst (report_entries t perf)))"
    by (simp add: Timer_repr_def split_beta)
  from 1 2 3 4 5 show ?thesis by blast
qed

text \<open>
  The scenario of the specification: slots \<^verbatim>\<open>{"x": 3, "y": 7}\<close> are listed \<^verbatim>\<open>y\<close> before \<^verbatim>\<open>x\<close>.
  Durations are rendered here as that many letters \<^verbatim>\<open>s\<close>.
\<close>

theorem report_order_witness:
  "distinct (map fst (timers \<lparr>func = Perf_counter,
       timers = [(''x'', \<lparr>slot_start = None, slot_times = [3]\<rparr>),
                 (''y'', \<lparr>slot_start = None, slot_times = [7]\<rparr>)]\<rparr>)) \<and>
   fst (report_entries \<lparr>func = Perf_counter,
       timers = [(''x'', \<lparr>slot_start = None, slot_times = [3]\<rparr>),
                 (''y'', \<lparr>slot_start = None, slot_times = [7]\<rparr>)]\<rparr> \<lparr>ticks = (\<lambda>n. 100), reads = 0\<rparr>)
     = [(''y'', 7), (''x'', 3)] \<and>
   fst (Timer_repr (\<lambda>v. replicate (nat v) CHR ''s'') \<lparr>func = Perf_counter,
       timers = [(''x'', \<lparr>slot_start = None, slot_times = [3]\<rparr>),
                 (''y'', \<lparr>slot_start = None, slot_times = [7]\<rparr>)]\<rparr> \<lparr>ticks = (\<lambda>n. 100), reads = 0\<rparr>)
     = ''Total elapsed: ssssssssss <seconds>'' @ [CHR 0x0A] @ ''  |- y: sssssss'' @ [CHR 0x0A] @ ''  |- x: sss''"
proof -
  let ?t = "\<lparr>func = Perf_counter,
       timers = [(''x'', \<lparr>slot_start = None, slot_times = [3]\<rparr>),
                 (''y'', \<lparr>slot_start = None, slot_times = [7]\<rparr>)]\<rparr>"
  let ?p = "\<lparr>ticks = (\<lambda>n. 100), reads = 0\<rparr>"
  have d: "distinct (map fst (timers ?t))" by simp
  have e: "fst (report_entries ?t ?p) = [(''y'', 7), (''x'', 3)]"
    by (simp add: report_entries_def slot_elapsed_def py_float_exact py_sorted_def py_dict_def)
  have s: "snd (report_entries ?t ?p) = ?p"
    by (simp add: report_entries_def slot_elapsed_def py_float_exact)
  have te: "Timer_elapsed ?t ?p = (10, ?p)"
    by (simp add: Timer_elapsed_def slot_elapsed_def py_float_exact)
  have n: "nat 10 = 10" "nat 7 = 7" "nat 3 = 3" by simp_all
  from report_order[OF d, of ?p "\<lambda>v. replicate (nat v) CHR ''s''"]
  have "fst (Timer_repr (\<lambda>v. replicate (nat v) CHR ''s'') ?t ?p) =
     ''Total elapsed: ssssssssss <seconds>'' @ [CHR 0x0A] @ ''  |- y: sssssss'' @ [CHR 0x0A] @ ''  |- x: sss''"
    by (simp add: e s te n numeral_eq_Suc)
  with d e show ?thesis by blast
qed

subsection \<open>Stopping a name that was never started\<close>

lemma map_of_dict_setitem: "map_of (dict_setitem d k v) = (map_of d)(k \<mapsto> v)"
  by (induction d) (auto simp: fun_eq_iff)








subsection \<open>What \<^verbatim>\<open>__new__\<close> wraps\<close>

lemma wrap_attrs_eq: "wrap_attrs as = Inr (map (\<lambda>(k, v). (k, wrapped_value k v)) as)"
  by (induction as) (auto simp: wrapped_value_def timed_def)

lemma map_of_wrapped: "map_of (map (\<lambda>(k, v). (k, wrapped_value k v)) as) k = map_option (wrapped_value k) (map_of as k)"
  by (induction as) auto

lemma TimedMetaClass_new_total: "\<exists>C. TimedMetaClass_new name bases attrs = Inr C"
  by (simp add: TimedMetaClass_new_def Let_def wrap_attrs_eq)

text \<open>
  Claim C7, as the code has it. \<^verbatim>\<open>TimedMetaClass.__new__\<close> always succeeds, and for every
  attribute of the namespace other than \<^verbatim>\<open>__init__\<close> and \<^verbatim>\<open>timer\<close>: when its name does not start
  with two underscores and its value is a function or method, the class holds the timed
  wrapper of that value under that name; otherwise it holds the value unchanged. A name
  with a single leading underscore is wrapped like any other.
\<close>

theorem new_wraps_non_dunder_functions:
  "\<exists>C. TimedMetaClass_new name bases attrs = Inr C \<and> cls_name C = name \<and> cls_bases C = bases \<and>
       (\<forall>k v. map_of attrs k = Some v \<longrightarrow> k \<noteq> ''__init__'' \<longrightarrow> k \<noteq> ''timer'' \<longrightarrow>
          map_of (cls_attrs C) k =
            Some (if \<not> startswith k ''__'' \<and> is_function v
                  then Function (name_of v) (fn_wrapper v) else v))"
proof -
  define init :: "'a attr" where "init =
     (case map_of attrs ''__init__'' of
        Some real_init \<Rightarrow> Function (name_or ''injected_init'' real_init) (injected_init_real real_init)
      | None \<Rightarrow> Function ''injected_init'' injected_init_bare)"
  define as2 where "as2 = map (\<lambda>(k, v). (k, wrapped_value k v)) (dict_setitem attrs ''__init__'' init)"
  let ?C = "Class name bases (dict_setitem as2 ''timer'' Property_timer)"
  have new: "TimedMetaClass_new name bases attrs = Inr ?C"
    by (simp add: TimedMetaClass_new_def Let_def wrap_attrs_eq as2_def init_def)
  have "map_of (cls_attrs ?C) k = Some (wrapped_value k v)"
    if "map_of attrs k = Some v" "k \<noteq> ''__init__''" "k \<noteq> ''timer''" for k v
    using that by (simp add: as2_def map_of_dict_setitem map_of_wrapped)
  then show ?thesis using new by (simp add: wrapped_value_def)
qed

text \<open>A namespace with a public method, a single-underscore method, a data attribute and a dunder method.\<close>

theorem new_wraps_non_dunder_functions_witness:
  "\<exists>C. TimedMetaClass_new ''A'' []
          [(''run'', Function ''run'' noop), (''_helper'', Function ''_helper'' noop),
           (''count'', Data (IntVal 5)), (''__str__'', Function ''__str__'' noop)] = Inr C \<and>
       map_of (cls_attrs C) ''run'' = Some (Function ''run'' (fn_wrapper (Function ''run'' noop))) \<and>
       map_of (cls_attrs C) ''_helper'' =
         Some (Function ''_helper'' (fn_wrapper (Function ''_helper'' noop))) \<and>
       map_of (cls_attrs C) ''count'' = Some (Data (IntVal 5)) \<and>
       map_of (cls_attrs C) ''__str__'' = Some (Function ''__str__'' noop)"
proof -
  let ?attrs = "[(''run'', Function ''run'' noop), (''_helper'', Function ''_helper'' noop),
           (''count'', Data (IntVal 5)), (''__str__'', Function ''__str__'' noop)]"
  from new_wraps_non_dunder_functions [of "''A''" "[]" ?attrs]
  obtain C where new: "TimedMetaClass_new ''A'' [] ?attrs = Inr C"
    and w: "\<And>k v. map_of ?attrs k = Some v \<Longrightarrow> k \<noteq> ''__init__'' \<Longrightarrow> k \<noteq> ''timer'' \<Longrightarrow>
          map_of (cls_attrs C) k =
            Some (if \<not> startswith k ''__'' \<and> is_function v
                  then Function (name_of v) (fn_wrapper v) else v)"
    by blast
  have 1: "map_of (cls_attrs C) ''run'' = Some (Function ''run'' (fn_wrapper (Function ''run'' noop)))"
    using w[of "''run''" "Function ''run'' noop"] by (simp add: startswith_def name_of_def)
  have 2: "map_of (cls_attrs C) ''_helper'' =
         Some (Function ''_helper'' (fn_wrapper (Function ''_helper'' noop)))"
    using w[of "''_helper''" "Function ''_helper'' noop"] by (simp add: startswith_def name_of_def)
  have 3: "map_of (cls_attrs C) ''count'' = Some (Data (IntVal 5))"
    using w[of "''count''" "Data (IntVal 5)"] by (simp add: startswith_def)
  have 4: "map_of (cls_attrs C) ''__str__'' = Some (Function ''__str__'' noop)"
    using w[of "''__str__''" "Function ''__str__'' noop"] by (simp add: startswith_def)
  from new 1 2 3 4 show ?thesis by blast
qed

text \<open>
  Claim C7 as stated fails: the function \<^verbatim>\<open>_helper\<close>, whose name has a single leading
  underscore, is replaced by its timed wrapper, and a call of the wrapper records a run
  under the slot \<^verbatim>\<open>_helper\<close>, which a call of the original does not.
\<close>

theorem single_underscore_is_wrapped:
  "TimedMetaClass_new ''A'' [] [(''_helper'', Function ''_helper'' noop)] =
     Inr (Class ''A'' []
           [(''_helper'', Function ''_helper'' (fn_wrapper (Function ''_helper'' noop))),
            (''__init__'', Function ''injected_init'' injected_init_bare),
            (''timer'', Property_timer)]) \<and>
   fn_wrapper (Function ''_helper'' noop) []
       \<lparr>perf_counter = \<lparr>ticks = int, reads = 0\<rparr>,
        self_timer = Some (Timer_init Perf_counter), self_fields = ()\<rparr> =
     (Return NoneVal,
      \<lparr>perf_counter = \<lparr>ticks = int, reads = 2\<rparr>,
       self_timer = Some \<lparr>func = Perf_counter,
                          timers = [(''_helper'', \<lparr>slot_start = None, slot_times = [1]\<rparr>)]\<rparr>,
       self_fields = ()\<rparr>) \<and>
   noop []
       \<lparr>perf_counter = \<lparr>ticks = int, reads = 0\<rparr>,
        self_timer = Some (Timer_init Perf_counter), self_fields = ()\<rparr> =
     (Return NoneVal,
      \<lparr>perf_counter = \<lparr>ticks = int, reads = 0\<rparr>,
       self_timer = Some (Timer_init Perf_counter), self_fields = ()\<rparr>)"
  by (simp add: TimedMetaClass_new_def timed_def startswith_def name_of_def fn_wrapper_def noop_def
      Timer_start_def Timer_stop_def Timer_init_def getitem_def slot_init_def call_func_def
      read_clock_def update_slot_def)

subsection \<open>Values that are not functions\<close>

text \<open>
  Claim C8, as the code has it. \<^verbatim>\<open>_timed\<close> applied to a value that is not a function or
  method fails with a \<^verbatim>\<open>TypeError\<close> whose message gives the type of the value and nothing
  about the attribute; applied to a function or method it returns the wrapper. \<^verbatim>\<open>__new__\<close>
  never fails: it hands only functions and methods to \<^verbatim>\<open>_timed\<close>.
\<close>

theorem timed_rejects_by_kind_only:
  "(\<not> is_function (v :: 'u attr) \<longrightarrow>
      timed v = Inl (TypeError (''Need <FunctionType> or <MethodType> but got '' @ type_repr v))) \<and>
   (is_function v \<longrightarrow> timed v = Inr (Function (name_of v) (fn_wrapper v))) \<and>
   (\<exists>C. TimedMetaClass_new name bases (attrs :: (string \<times> 'u attr) list) = Inr C)"
  using TimedMetaClass_new_total[of name bases attrs] by (simp add: timed_def)

text \<open>A string attribute and a method.\<close>

theorem timed_rejects_by_kind_only_witness:
  "timed (Data (StrVal ''v1'') :: unit attr) =
     Inl (TypeError ''Need <FunctionType> or <MethodType> but got <class 'str'>'') \<and>
   timed (Function ''run'' noop) = Inr (Function ''run'' (fn_wrapper (Function ''run'' noop))) \<and>
   (\<exists>C. TimedMetaClass_new ''A'' [] [(''version'', Data (StrVal ''v1'') :: unit attr)] = Inr C)"
  using timed_rejects_by_kind_only [of "Data (StrVal ''v1'') :: unit attr" "''A''" "[]"
          "[(''version'', Data (StrVal ''v1''))]"]
        timed_rejects_by_kind_only [of "Function ''run'' noop" "''A''" "[]"
          "[(''version'', Data (StrVal ''v1''))]"]
  by (simp add: name_of_def)

text \<open>
  Claim C8 as stated fails: a class whose namespace holds the data attribute \<^verbatim>\<open>count = 5\<close> is
  created without any error, the attribute unchanged; and the error of \<^verbatim>\<open>_timed\<close> for that
  value mentions the type \<^verbatim>\<open>int\<close> only.
\<close>

theorem data_attribute_not_rejected:
  "TimedMetaClass_new ''A'' [] [(''count'', Data (IntVal 5) :: unit attr)] =
     Inr (Class ''A'' []
           [(''count'', Data (IntVal 5)),
            (''__init__'', Function ''injected_init'' injected_init_bare),
            (''timer'', Property_timer)]) \<and>
   timed (Data (IntVal 5) :: unit attr) =
     Inl (TypeError ''Need <FunctionType> or <MethodType> but got <class 'int'>'')"
  by (simp add: TimedMetaClass_new_def timed_def startswith_def)

subsection \<open>Release on every exit path\<close>

lemma start_then_stop:
  assumes idle: "slot_start (slot_of t k) = None"
    and start: "Timer_start t k p = (r1, t1, p1)"
  shows "r1 = Return () \<and> slot_start (slot_of t1 k) = Some (fst (call_func t p))"
proof -
  obtain now t2 p' where c: "call_func t p = (now, t2, p')" by (cases "call_func t p")
  from Timer_start_ok[OF idle c] start
  have "r1 = Return ()" and "map_of (timers t1) = (map_of (timers t))(k \<mapsto> (slot_of t k)\<lparr>slot_start := Some now\<rparr>)"
    by auto
  then show ?thesis using c by (simp add: slot_of_def)
qed

lemma stop_running:
  assumes "slot_start (slot_of t k) = Some b"
  shows "\<exists>t' p'. Timer_stop t k p = (Return (), t', p') \<and>
           slot_start (slot_of t' k) = None \<and>
           slot_times (slot_of t' k) = slot_times (slot_of t k) @ [fst (call_func t p) - b]"
proof -
  obtain now t2 p' where c: "call_func t p = (now, t2, p')" by (cases "call_func t p")
  from Timer_stop_ok[OF assms c]
  obtain t' where s: "Timer_stop t k p = (Return (), t', p')"
    and m: "map_of (timers t') = (map_of (timers t))(k \<mapsto>
              (slot_of t k)\<lparr>slot_times := slot_times (slot_of t k) @ [now - b], slot_start := None\<rparr>)"
    by blast
  have "slot_of t' k = (slot_of t k)\<lparr>slot_times := slot_times (slot_of t k) @ [now - b], slot_start := None\<rparr>"
    using m by (simp add: slot_of_def)
  then show ?thesis using s c by simp
qed

lemma wrapper_already_started:
  assumes "self_timer st = Some t" and "slot_start (slot_of t (name_of fn)) \<noteq> None"
  shows "fn_wrapper fn args st =
           (Raise (RuntimeError (''Timer <'' @ name_of fn @ ''> Already started'')), st)"
proof -
  have "st\<lparr>self_timer := Some t, perf_counter := perf_counter st\<rparr> = st"
    using assms(1) by (cases st) simp
  then show ?thesis
    using assms(1) Timer_start_fail[OF assms(2), of "perf_counter st"]
    by (simp add: fn_wrapper_def)
qed

lemma with_already_started:
  assumes "slot_start (slot_of T ''main'') \<noteq> None"
  shows "with_Timer T body perf = (Raise (RuntimeError ''Timer <main> Already started''), T, perf)"
  using Timer_start_fail[OF assms, of perf] by (simp add: with_Timer_def Timer_enter_def)

text \<open>
  Claim C1, as the code has it. First part: a wrapped operation is called on an instance
  that holds its Timer, while the slot named after the operation is not Running, and the
  original operation, however it ends, leaves that slot Running. Then \<^verbatim>\<open>start\<close> succeeds and
  sets the slot Running, \<^verbatim>\<open>stop\<close> succeeds on the state the operation left, the wrapper's
  outcome is the operation's outcome (return value or exception) unchanged, and afterwards
  the slot is Idle with one more recorded duration. Second part: the same for
  \<^verbatim>\<open>with timer: body\<close> and the slot \<^verbatim>\<open>"main"\<close>. Third part: a wrapped operation called while
  its slot is already Running raises the "Already started" \<^verbatim>\<open>RuntimeError\<close> and leaves the
  whole state as it was, so neither the operation nor \<^verbatim>\<open>stop\<close> has run. Fourth part: the
  same for a block entered while \<^verbatim>\<open>"main"\<close> is Running, whose body does not run.
\<close>

theorem guaranteed_release:
  "(self_timer st = Some t \<longrightarrow> slot_start (slot_of t (name_of fn)) = None \<longrightarrow>
      Timer_start t (name_of fn) (perf_counter st) = (r1, t1, p1) \<longrightarrow>
      call fn args (st\<lparr>self_timer := Some t1, perf_counter := p1\<rparr>) = (rt, st2) \<longrightarrow>
      self_timer st2 = Some t2 \<longrightarrow> slot_start (slot_of t2 (name_of fn)) = Some b \<longrightarrow>
      r1 = Return () \<and> slot_start (slot_of t1 (name_of fn)) \<noteq> None \<and>
      (\<exists>t3 p3. Timer_stop t2 (name_of fn) (perf_counter st2) = (Return (), t3, p3) \<and>
               fn_wrapper fn args st = (rt, st2\<lparr>self_timer := Some t3, perf_counter := p3\<rparr>) \<and>
               slot_start (slot_of t3 (name_of fn)) = None \<and>
               slot_times (slot_of t3 (name_of fn)) =
                 slot_times (slot_of t2 (name_of fn)) @ [fst (call_func t2 (perf_counter st2)) - b])) \<and>
   (slot_start (slot_of T ''main'') = None \<longrightarrow>
      Timer_enter T perf = (R1, T1, P1) \<longrightarrow>
      body T1 P1 = (r, T2, P2) \<longrightarrow> slot_start (slot_of T2 ''main'') = Some B \<longrightarrow>
      R1 = Return () \<and> slot_start (slot_of T1 ''main'') \<noteq> None \<and>
      (\<exists>T3 P3. Timer_exit T2 P2 = (Return (), T3, P3) \<and>
               with_Timer T body perf = (r, T3, P3) \<and>
               slot_start (slot_of T3 ''main'') = None \<and>
               slot_times (slot_of T3 ''main'') =
                 slot_times (slot_of T2 ''main'') @ [fst (call_func T2 P2) - B])) \<and>
   (self_timer st = Some t \<longrightarrow> slot_start (slot_of t (name_of fn)) \<noteq> None \<longrightarrow>
      fn_wrapper fn args st =
        (Raise (RuntimeError (''Timer <'' @ name_of fn @ ''> Already started'')), st)) \<and>
   (slot_start (slot_of T ''main'') \<noteq> None \<longrightarrow>
      with_Timer T body perf = (Raise (RuntimeError ''Timer <main> Already started''), T, perf))"
proof (intro conjI impI)
  assume a: "self_timer st = Some t" "slot_start (slot_of t (name_of fn)) = None"
    "Timer_start t (name_of fn) (perf_counter st) = (r1, t1, p1)"
    "call fn args (st\<lparr>self_timer := Some t1, perf_counter := p1\<rparr>) = (rt, st2)"
    "self_timer st2 = Some t2" "slot_start (slot_of t2 (name_of fn)) = Some b"
  from start_then_stop[OF a(2) a(3)]
  show r1: "r1 = Return ()" and "slot_start (slot_of t1 (name_of fn)) \<noteq> None" by simp_all
  from stop_running[OF a(6), of "perf_counter st2"]
  obtain t3 p3 where s: "Timer_stop t2 (name_of fn) (perf_counter st2) = (Return (), t3, p3)"
    and i: "slot_start (slot_of t3 (name_of fn)) = None"
    and ts: "slot_times (slot_of t3 (name_of fn)) =
                 slot_times (slot_of t2 (name_of fn)) @ [fst (call_func t2 (perf_counter st2)) - b]"
    by blast
  have "fn_wrapper fn args st = (rt, st2\<lparr>self_timer := Some t3, perf_counter := p3\<rparr>)"
    using a(1,3,4,5) r1 s by (simp add: fn_wrapper_def)
  with s i ts
  show "\<exists>t3 p3. Timer_stop t2 (name_of fn) (perf_counter st2) = (Return (), t3, p3) \<and>
               fn_wrapper fn args st = (rt, st2\<lparr>self_timer := Some t3, perf_counter := p3\<rparr>) \<and>
               slot_start (slot_of t3 (name_of fn)) = None \<and>
               slot_times (slot_of t3 (name_of fn)) =
                 slot_times (slot_of t2 (name_of fn)) @ [fst (call_func t2 (perf_counter st2)) - b]"
    by blast
next
  assume a: "slot_start (slot_of T ''main'') = None" "Timer_enter T perf = (R1, T1, P1)"
    "body T1 P1 = (r, T2, P2)" "slot_start (slot_of T2 ''main'') = Some B"
  from a(2) have st: "Timer_start T ''main'' perf = (R1, T1, P1)" by (simp add: Timer_enter_def)
  from start_then_stop[OF a(1) st]
  show r1: "R1 = Return ()" and "slot_start (slot_of T1 ''main'') \<noteq> None" by simp_all
  from stop_running[OF a(4), of P2]
  obtain T3 P3 where s: "Timer_stop T2 ''main'' P2 = (Return (), T3, P3)"
    and i: "slot_start (slot_of T3 ''main'') = None"
    and ts: "slot_times (slot_of T3 ''main'') =
                 slot_times (slot_of T2 ''main'') @ [fst (call_func T2 P2) - B]"
    by blast
  have "with_Timer T body perf = (r, T3, P3)"
    using a(2,3) r1 s by (simp add: with_Timer_def Timer_exit_def)
  with s i ts
  show "\<exists>T3 P3. Timer_exit T2 P2 = (Return (), T3, P3) \<and>
               with_Timer T body perf = (r, T3, P3) \<and>
               slot_start (slot_of T3 ''main'') = None \<and>
               slot_times (slot_of T3 ''main'') =
                 slot_times (slot_of T2 ''main'') @ [fst (call_func T2 P2) - B]"
    by (auto simp: Timer_exit_def)
next
  assume "self_timer st = Some t" "slot_start (slot_of t (name_of fn)) \<noteq> None"
  then show "fn_wrapper fn args st =
        (Raise (RuntimeError (''Timer <'' @ name_of fn @ ''> Already started'')), st)"
    by (rule wrapper_already_started)
next
  assume "slot_start (slot_of T ''main'') \<noteq> None"
  then show "with_Timer T body perf = (Raise (RuntimeError ''Timer <main> Already started''), T, perf)"
    by (rule with_already_started)
qed

text \<open>
  An operation \<^verbatim>\<open>compute\<close> and a block body that both raise, called with their slot free;
  then an operation \<^verbatim>\<open>compute\<close> that would store its argument and a block body that would
  return 1, called with their slot Running.
\<close>

theorem guaranteed_release_witness:
  "fn_wrapper (Function ''compute'' failing) []
       \<lparr>perf_counter = \<lparr>ticks = (\<lambda>n. 10 + int n), reads = 0\<rparr>,
        self_timer = Some (Timer_init Perf_counter), self_fields = ()\<rparr> =
     (Raise (DomainError ''boom''),
      \<lparr>perf_counter = \<lparr>ticks = (\<lambda>n. 10 + int n), reads = 2\<rparr>,
       self_timer = Some \<lparr>func = Perf_counter,
                          timers = [(''compute'', \<lparr>slot_start = None, slot_times = [1]\<rparr>)]\<rparr>,
       self_fields = ()\<rparr>) \<and>
   with_Timer (Timer_init Perf_counter) (\<lambda>t p. (Raise (DomainError ''boom''), t, p))
       \<lparr>ticks = (\<lambda>n. 10 + int n), reads = 0\<rparr> =
     (Raise (DomainError ''boom'') :: val outcome,
      \<lparr>func = Perf_counter, timers = [(''main'', \<lparr>slot_start = None, slot_times = [1]\<rparr>)]\<rparr>,
      \<lparr>ticks = (\<lambda>n. 10 + int n), reads = 2\<rparr>) \<and>
   fn_wrapper (Function ''compute'' base_init) [IntVal 5]
       \<lparr>perf_counter = \<lparr>ticks = (\<lambda>n. 10 + int n), reads = 0\<rparr>,
        self_timer = Some \<lparr>func = Perf_counter,
                           timers = [(''compute'', \<lparr>slot_start = Some 3, slot_times = []\<rparr>)]\<rparr>,
        self_fields = 0\<rparr> =
     (Raise (RuntimeError ''Timer <compute> Already started''),
      \<lparr>perf_counter = \<lparr>ticks = (\<lambda>n. 10 + int n), reads = 0\<rparr>,
       self_timer = Some \<lparr>func = Perf_counter,
                          timers = [(''compute'', \<lparr>slot_start = Some 3, slot_times = []\<rparr>)]\<rparr>,
       self_fields = 0\<rparr>) \<and>
   with_Timer \<lparr>func = Perf_counter, timers = [(''main'', \<lparr>slot_start = Some 3, slot_times = []\<rparr>)]\<rparr>
       (\<lambda>t p. (Return (IntVal 1), t, p)) \<lparr>ticks = (\<lambda>n. 10 + int n), reads = 0\<rparr> =
     (Raise (RuntimeError ''Timer <main> Already started''),
      \<lparr>func = Perf_counter, timers = [(''main'', \<lparr>slot_start = Some 3, slot_times = []\<rparr>)]\<rparr>,
      \<lparr>ticks = (\<lambda>n. 10 + int n), reads = 0\<rparr>)"
  using guaranteed_release [where
      st = "\<lparr>perf_counter = \<lparr>ticks = (\<lambda>n. 10 + int n), reads = 0\<rparr>,
             self_timer = Some \<lparr>func = Perf_counter,
                           timers = [(''compute'', \<lparr>slot_start = Some 3, slot_times = []\<rparr>)]\<rparr>,
             self_fields = 0\<rparr>"
      and t = "\<lparr>func = Perf_counter, timers = [(''compute'', \<lparr>slot_start = Some 3, slot_times = []\<rparr>)]\<rparr>"
      and fn = "Function ''compute'' base_init" and args = "[IntVal 5]"
      and T = "\<lparr>func = Perf_counter, timers = [(''main'', \<lparr>slot_start = Some 3, slot_times = []\<rparr>)]\<rparr>"
      and body = "\<lambda>t p. (Return (IntVal 1), t, p)"
      and perf = "\<lparr>ticks = (\<lambda>n. 10 + int n), reads = 0\<rparr>"]
    guaranteed_release [where
      st = "\<lparr>perf_counter = \<lparr>ticks = (\<lambda>n. 10 + int n), reads = 0\<rparr>,
             self_timer = Some (Timer_init Perf_counter), self_fields = ()\<rparr>"
      and t = "Timer_init Perf_counter" and fn = "Function ''compute'' failing" and args = "[]"
      and ?r1.0 = "Return ()"
      and ?t1.0 = "\<lparr>func = Perf_counter, timers = [(''compute'', \<lparr>slot_start = Some 10, slot_times = []\<rparr>)]\<rparr>"
      and ?p1.0 = "\<lparr>ticks = (\<lambda>n. 10 + int n), reads = 1\<rparr>"
      and rt = "Raise (DomainError ''boom'')"
      and ?st2.0 = "\<lparr>perf_counter = \<lparr>ticks = (\<lambda>n. 10 + int n), reads = 1\<rparr>,
             self_timer = Some \<lparr>func = Perf_counter, timers = [(''compute'', \<lparr>slot_start = Some 10, slot_times = []\<rparr>)]\<rparr>,
             self_fields = ()\<rparr>"
      and ?t2.0 = "\<lparr>func = Perf_counter, timers = [(''compute'', \<lparr>slot_start = Some 10, slot_times = []\<rparr>)]\<rparr>"
      and b = 10
      and T = "Timer_init Perf_counter" and perf = "\<lparr>ticks = (\<lambda>n. 10 + int n), reads = 0\<rparr>"
      and ?R1.0 = "Return ()"
      and ?T1.0 = "\<lparr>func = Perf_counter, timers = [(''main'', \<lparr>slot_start = Some 10, slot_times = []\<rparr>)]\<rparr>"
      and ?P1.0 = "\<lparr>ticks = (\<lambda>n. 10 + int n), reads = 1\<rparr>"
      and body = "\<lambda>t p. (Raise (DomainError ''boom'') :: val outcome, t, p)"
      and r = "Raise (DomainError ''boom'')"
      and ?T2.0 = "\<lparr>func = Perf_counter, timers = [(''main'', \<lparr>slot_start = Some 10, slot_times = []\<rparr>)]\<rparr>"
      and ?P2.0 = "\<lparr>ticks = (\<lambda>n. 10 + int n), reads = 1\<rparr>"
      and B = 10]
  by (simp add: name_of_def failing_def slot_of_def Timer_init_def Timer_enter_def Timer_exit_def
      Timer_start_def Timer_stop_def getitem_def slot_init_def call_func_def read_clock_def
      update_slot_def)

text \<open>
  Claim C1 as stated fails: when the slot \<^verbatim>\<open>compute\<close> is already Running (as it is inside a
  recursive call of the wrapped \<^verbatim>\<open>compute\<close>), the wrapper raises "Already started" without
  calling the operation or \<^verbatim>\<open>stop\<close>; the slot stays Running and the outcome is not the
  operation's, which would have returned \<^verbatim>\<open>None\<close>.
\<close>

theorem wrapper_on_running_slot:
  "fn_wrapper (Function ''compute'' noop) []
       \<lparr>perf_counter = \<lparr>ticks = (\<lambda>n. 10 + int n), reads = 0\<rparr>,
        self_timer = Some \<lparr>func = Perf_counter,
                           timers = [(''compute'', \<lparr>slot_start = Some 3, slot_times = []\<rparr>)]\<rparr>,
        self_fields = ()\<rparr> =
     (Raise (RuntimeError ''Timer <compute> Already started''),
      \<lparr>perf_counter = \<lparr>ticks = (\<lambda>n. 10 + int n), reads = 0\<rparr>,
       self_timer = Some \<lparr>func = Perf_counter,
                          timers = [(''compute'', \<lparr>slot_start = Some 3, slot_times = []\<rparr>)]\<rparr>,
       self_fields = ()\<rparr>) \<and>
   call (Function ''compute'' noop) []
       \<lparr>perf_counter = \<lparr>ticks = (\<lambda>n. 10 + int n), reads = 0\<rparr>,
        self_timer = Some \<lparr>func = Perf_counter,
                           timers = [(''compute'', \<lparr>slot_start = Some 3, slot_times = []\<rparr>)]\<rparr>,
        self_fields = ()\<rparr> =
     (Return NoneVal,
      \<lparr>perf_counter = \<lparr>ticks = (\<lambda>n. 10 + int n), reads = 0\<rparr>,
       self_timer = Some \<lparr>func = Perf_counter,
                          timers = [(''compute'', \<lparr>slot_start = Some 3, slot_times = []\<rparr>)]\<rparr>,
       self_fields = ()\<rparr>)"
  by (simp add: fn_wrapper_def name_of_def noop_def Timer_start_def getitem_def)

subsection \<open>A subclass without its own \<^verbatim>\<open>__init__\<close>\<close>

text \<open>
  Claim C4, evaluated. \<^verbatim>\<open>Base\<close> defines \<^verbatim>\<open>__init__(self, x)\<close>, which stores \<^verbatim>\<open>x\<close>; \<^verbatim>\<open>Sub(Base)\<close>
  has an empty body. With both classes built by \<^verbatim>\<open>TimedMetaClass\<close>, \<^verbatim>\<open>Sub(5)\<close> raises the
  arity \<^verbatim>\<open>TypeError\<close> of \<^verbatim>\<open>injected_init(self)\<close>, where the plain \<^verbatim>\<open>Sub(5)\<close> returns an instance
  with \<^verbatim>\<open>x = 5\<close>; and \<^verbatim>\<open>Sub()\<close> returns an instance on which the body of \<^verbatim>\<open>Base.__init__\<close> never
  ran, where the plain \<^verbatim>\<open>Sub()\<close> raises. The instrumented \<^verbatim>\<open>Base(5)\<close> itself, which goes through
  the other branch, stores \<^verbatim>\<open>x = 5\<close>.
\<close>

theorem inherited_init_not_run:
  "(case TimedMetaClass_new ''Base'' [] [(''__init__'', Function ''__init__'' base_init)] of
      Inl e \<Rightarrow> Inl e
    | Inr B \<Rightarrow>
        (case TimedMetaClass_new ''Sub'' [B] [] of
           Inl e \<Rightarrow> Inl e
         | Inr S \<Rightarrow> instantiate S [IntVal 5] 0 \<lparr>ticks = int, reads = 0\<rparr>)) =
     Inl (ArityError 0 1) \<and>
   instantiate (Class ''Sub'' [Class ''Base'' [] [(''__init__'', Function ''__init__'' base_init)]] [])
       [IntVal 5] 0 \<lparr>ticks = int, reads = 0\<rparr> =
     Inr \<lparr>perf_counter = \<lparr>ticks = int, reads = 0\<rparr>, self_timer = None, self_fields = 5\<rparr> \<and>
   (case TimedMetaClass_new ''Base'' [] [(''__init__'', Function ''__init__'' base_init)] of
      Inl e \<Rightarrow> Inl e
    | Inr B \<Rightarrow>
        (case TimedMetaClass_new ''Sub'' [B] [] of
           Inl e \<Rightarrow> Inl e
         | Inr S \<Rightarrow> instantiate S [] 0 \<lparr>ticks = int, reads = 0\<rparr>)) =
     Inr \<lparr>perf_counter = \<lparr>ticks = int, reads = 0\<rparr>,
          self_timer = Some (Timer_init Perf_counter), self_fields = 0\<rparr> \<and>
   instantiate (Class ''Sub'' [Class ''Base'' [] [(''__init__'', Function ''__init__'' base_init)]] [])
       [] 0 \<lparr>ticks = int, reads = 0\<rparr> =
     Inl (ArityError 1 0) \<and>
   (case TimedMetaClass_new ''Base'' [] [(''__init__'', Function ''__init__'' base_init)] of
      Inl e \<Rightarrow> Inl e
    | Inr B \<Rightarrow> instantiate B [IntVal 5] 0 \<lparr>ticks = int, reads = 0\<rparr>) =
     Inr \<lparr>perf_counter = \<lparr>ticks = int, reads = 0\<rparr>,
          self_timer = Some (Timer_init Perf_counter), self_fields = 5\<rparr>"
  by (simp add: TimedMetaClass_new_def startswith_def instantiate_def injected_init_bare_def
      injected_init_real_def base_init_def)

end
